theory Spec2Isabelle
  imports Complex_Main "HOL-Library.Char_ord" "HOL-Library.List_Lexorder"
begin

section \<open>The tree-health dashboard (app.py)\<close>

text \<open>
  The program loads a table of pre-aggregated tree counts once, tidies it, and serves two
  callbacks, \<open>health_prop\<close> and \<open>stewardship\<close>, which filter the table by the selected
  borough and species and reshape the matching rows into bar-chart data.

  Conventions of the embedding:
  \<^item> a pandas frame is a list of rows in frame order; where the code addresses rows by index
    label (\<open>.loc[k]\<close>), the labels are carried explicitly;
  \<^item> a float cell is \<open>Num q\<close> with \<open>q\<close> an exact rational, or one of the non-finite values
    pandas produces on division by zero (\<open>NaN\<close>, \<open>PosInf\<close>); binary floating-point error is not
    modelled;
  \<^item> an exception is the \<open>Inl\<close> branch of a sum.
\<close>

subsection \<open>Values\<close>

datatype py_error = KeyError | ValueError | TypeError

datatype fval = Num rat | NaN | PosInf

text \<open>Elementwise division of an integer column, as pandas does it: no exception,
  \<open>0/0\<close> is NaN and \<open>c/0\<close> for positive \<open>c\<close> is infinite.\<close>

definition fdiv :: "nat \<Rightarrow> nat \<Rightarrow> fval" where
  "fdiv a b = (if b = 0 then (if a = 0 then NaN else PosInf) else Num (of_nat a / of_nat b))"

text \<open>Rounding to the nearest integer, ties to the even neighbour (numpy's \<open>rint\<close>).\<close>

definition round_half_even :: "rat \<Rightarrow> int" where
  "round_half_even q =
     (let f = \<lfloor>q\<rfloor>; d = q - of_int f
      in if d < 1 / 2 then f
         else if 1 / 2 < d then f + 1
         else if even f then f else f + 1)"

text \<open>\<open>round(v, 2)\<close>: scale by 100, round, scale back; non-finite values pass through.\<close>

fun round2 :: "fval \<Rightarrow> fval" where
  "round2 (Num q) = Num (of_int (round_half_even (q * 100)) / 100)"
| "round2 NaN = NaN"
| "round2 PosInf = PosInf"

fun fillna :: "fval \<Rightarrow> fval" where
  "fillna NaN = Num 0"
| "fillna v = v"

subsection \<open>The data loader\<close>

text \<open>A fetched JSON row: every field may be missing.\<close>

record raw_row =
  raw_spc_common :: "string option"
  raw_boroname :: "string option"
  raw_health :: "string option"
  raw_steward :: "string option"
  raw_count_tree_id :: "nat option"

record row =
  spc_common :: string
  boroname :: string
  health :: string
  steward :: string
  count_tree_id :: nat

definition notna :: "raw_row \<Rightarrow> bool" where
  "notna r \<longleftrightarrow> raw_spc_common r \<noteq> None \<and> raw_boroname r \<noteq> None \<and> raw_health r \<noteq> None
     \<and> raw_steward r \<noteq> None \<and> raw_count_tree_id r \<noteq> None"

definition dropna :: "raw_row list \<Rightarrow> raw_row list" where
  "dropna rs = filter notna rs"

text \<open>Python's \<open>str.title\<close> on ASCII letters: a letter that follows a cased letter is
  lower-cased, any other letter is upper-cased; characters without case are kept.\<close>

definition ascii_lowercase :: string where
  "ascii_lowercase = ''abcdefghijklmnopqrstuvwxyz''"

definition ascii_uppercase :: string where
  "ascii_uppercase = ''ABCDEFGHIJKLMNOPQRSTUVWXYZ''"

definition is_cased :: "char \<Rightarrow> bool" where
  "is_cased c \<longleftrightarrow> c \<in> set ascii_lowercase \<or> c \<in> set ascii_uppercase"

definition to_upper :: "char \<Rightarrow> char" where
  "to_upper c = (case map_of (zip ascii_lowercase ascii_uppercase) c of None \<Rightarrow> c | Some u \<Rightarrow> u)"

definition to_lower :: "char \<Rightarrow> char" where
  "to_lower c = (case map_of (zip ascii_uppercase ascii_lowercase) c of None \<Rightarrow> c | Some l \<Rightarrow> l)"

fun title_from :: "bool \<Rightarrow> string \<Rightarrow> string" where
  "title_from previous_is_cased [] = []"
| "title_from previous_is_cased (c # cs) =
     (if previous_is_cased then to_lower c else to_upper c) # title_from (is_cased c) cs"

definition title :: "string \<Rightarrow> string" where
  "title s = title_from False s"

text \<open>\<open>Series.replace(old, new)\<close> on one cell: whole-value match only.\<close>

definition replace_val :: "string \<Rightarrow> string \<Rightarrow> string \<Rightarrow> string" where
  "replace_val old new v = (if v = old then new else v)"

definition schubert_raw :: string where
  "schubert_raw = CHR 0x27 # ''Schubert'' @ CHR 0x27 # '' chokecherry''"

definition schubert_titled :: string where
  "schubert_titled = CHR 0x27 # ''Schubert'' @ CHR 0x27 # '' Chokecherry''"

definition tidy_species :: "string \<Rightarrow> string" where
  "tidy_species s = replace_val schubert_titled ''Schubert Chokecherry'' (title s)"

definition tidy_steward :: "string \<Rightarrow> string" where
  "tidy_steward s =
     replace_val ''4orMore'' ''4+''
       (replace_val ''3or4'' ''3-4''
         (replace_val ''1or2'' ''1-2''
           (replace_val ''None'' ''0'' s)))"

definition tidy_row :: "raw_row \<Rightarrow> row" where
  "tidy_row r =
     \<lparr> spc_common = tidy_species (the (raw_spc_common r)),
       boroname = the (raw_boroname r),
       health = the (raw_health r),
       steward = tidy_steward (the (raw_steward r)),
       count_tree_id = the (raw_count_tree_id r) \<rparr>"

text \<open>Lines 29 to 35: the table \<open>nyctrees\<close> as a function of the fetched rows.
  \<open>tidy_row\<close> is only applied to rows that passed \<open>dropna\<close>.\<close>

definition load_nyctrees :: "raw_row list \<Rightarrow> row list" where
  "load_nyctrees fetched = map tidy_row (dropna fetched)"

subsection \<open>Frame operations shared by the callbacks\<close>

text \<open>Lines 80-81 and 112-113: boolean-mask selection of the matching rows.\<close>

definition select_rows :: "row list \<Rightarrow> string \<Rightarrow> string \<Rightarrow> row list" where
  "select_rows nyctrees borough species =
     filter (\<lambda>r. boroname r = borough \<and> spc_common r = species) nyctrees"

text \<open>\<open>df.groupby(key).sum()['count_tree_id']\<close>: one entry per distinct key value, keys in
  ascending order, each with the sum of the counts of its group.\<close>

definition groupby_sum :: "(row \<Rightarrow> string) \<Rightarrow> row list \<Rightarrow> (string \<times> nat) list" where
  "groupby_sum key df =
     map (\<lambda>k. (k, sum_list (map count_tree_id (filter (\<lambda>r. key r = k) df))))
       (sort (remdups (map key df)))"

text \<open>\<open>reset_index()\<close>: the rows get the index labels \<open>0, 1, ..\<close> in order.\<close>

definition reset_index :: "'a list \<Rightarrow> (nat \<times> 'a) list" where
  "reset_index xs = zip [0..<length xs] xs"

text \<open>\<open>frame.loc[k] = v\<close>: overwrite the row labelled \<open>k\<close>, or append it when no row has
  that label.\<close>

definition loc_set :: "nat \<Rightarrow> 'a \<Rightarrow> (nat \<times> 'a) list \<Rightarrow> (nat \<times> 'a) list" where
  "loc_set k v fr =
     (if k \<in> fst ` set fr then map (\<lambda>(l, old). if l = k then (l, v) else (l, old)) fr
      else fr @ [(k, v)])"

text \<open>\<open>frame.loc[k]\<close>: the row labelled \<open>k\<close>; a missing label raises KeyError.\<close>

definition loc :: "nat \<Rightarrow> (nat \<times> 'a) list \<Rightarrow> py_error + 'a" where
  "loc k fr = (case map_of fr k of None \<Rightarrow> Inl KeyError | Some r \<Rightarrow> Inr r)"

subsection \<open>The first callback: health\_prop\<close>

type_synonym health_frame = "(nat \<times> string \<times> fval) list"

type_synonym cat_frame = "(nat \<times> string option \<times> fval) list"

record health_bar =
  hb_x :: "string option list"
  hb_y :: "fval list"
  hb_marker_color :: "string list"

record health_figure =
  hf_data :: "health_bar list"
  hf_title :: string

text \<open>Line 83: per-health sums divided by the total of the matching counts, rounded.
  Python's builtin \<open>sum\<close> of an empty column is 0.\<close>

definition health_shares :: "row list \<Rightarrow> health_frame" where
  "health_shares df =
     reset_index
       (map (\<lambda>(h, c). (h, round2 (fdiv c (sum_list (map count_tree_id df)))))
          (groupby_sum health df))"

text \<open>Lines 85-87: one pass of the loop body for health state \<open>i\<close>, and the loop.\<close>

definition fill_step :: "health_frame \<Rightarrow> string \<Rightarrow> health_frame" where
  "fill_step fr i = (if list_all (\<lambda>(l, h, v). i \<noteq> h) fr then loc_set 2 (i, Num 0) fr else fr)"

definition fill_missing :: "health_frame \<Rightarrow> health_frame" where
  "fill_missing fr = foldl fill_step fr [''Fair'', ''Good'', ''Poor'']"

text \<open>Line 89: \<open>pd.Categorical(values, categories)\<close> keeps a value that is a category and
  turns any other value into a missing one.\<close>

definition categorical :: "string list \<Rightarrow> string \<Rightarrow> string option" where
  "categorical cats h = (if h \<in> set cats then Some h else None)"

definition health_order :: "string list" where
  "health_order = [''Good'', ''Fair'', ''Poor'']"

definition to_categorical :: "health_frame \<Rightarrow> cat_frame" where
  "to_categorical fr = map (\<lambda>(l, h, v). (l, categorical health_order h, v)) fr"

text \<open>Line 90: \<open>sort_values('health')\<close> sorts by category position, missing values last;
  rows with equal keys keep their order (the keys of the rows built above are distinct
  whenever every health value is a category).\<close>

fun position :: "string list \<Rightarrow> string \<Rightarrow> nat" where
  "position [] h = 0"
| "position (c # cs) h = (if h = c then 0 else Suc (position cs h))"

definition cat_code :: "string list \<Rightarrow> string option \<Rightarrow> nat" where
  "cat_code cats c = (case c of None \<Rightarrow> length cats | Some h \<Rightarrow> position cats h)"

definition sort_values :: "cat_frame \<Rightarrow> cat_frame" where
  "sort_values fr = sort_key (\<lambda>(l, c, v). cat_code health_order c) fr"

text \<open>Lines 92-105: the returned figure.\<close>

definition health_figure_of :: "string \<Rightarrow> string \<Rightarrow> cat_frame \<Rightarrow> health_figure" where
  "health_figure_of borough species health_prop =
     \<lparr> hf_data =
         [\<lparr> hb_x = map (\<lambda>(l, c, v). c) health_prop,
            hb_y = map (\<lambda>(l, c, v). v) health_prop,
            hb_marker_color = [''#109618'', ''#FFA15A'', ''#990099''] \<rparr>],
       hf_title = ''Health of '' @ species @ '' Trees in '' @ borough \<rparr>"

definition health_table :: "row list \<Rightarrow> cat_frame" where
  "health_table df = sort_values (to_categorical (fill_missing (health_shares df)))"

definition health_prop :: "row list \<Rightarrow> string \<Rightarrow> string \<Rightarrow> health_figure" where
  "health_prop nyctrees borough species =
     health_figure_of borough species (health_table (select_rows nyctrees borough species))"

subsection \<open>The second callback: stewardship\<close>

type_synonym merged_frame = "(row \<times> nat) list"

type_synonym merged_p_frame = "(row \<times> nat \<times> fval) list"

type_synonym pivot_frame = "(string \<times> (string \<times> fval) list) list"

type_synonym wide_frame = "(nat \<times> string \<times> fval list) list"

record steward_bar =
  sb_x :: "string list"
  sb_y :: "fval list"
  sb_text :: "fval list"
  sb_marker_color :: string
  sb_name :: string

record steward_figure =
  sf_data :: "steward_bar list"
  sf_title :: string

text \<open>Lines 115-117: inner join of the matching rows with the per-steward totals on
  \<open>steward\<close>. The row's own count becomes \<open>count_tree_id_x\<close>, the total
  \<open>count_tree_id_y\<close>.\<close>

definition merge_totals :: "row list \<Rightarrow> (string \<times> nat) list \<Rightarrow> merged_frame" where
  "merge_totals df totals =
     concat (map (\<lambda>r. map (\<lambda>(k, t). (r, t)) (filter (\<lambda>(k, t). k = steward r) totals)) df)"

text \<open>Line 119: the new column \<open>steward_p\<close>.\<close>

definition with_steward_p :: "merged_frame \<Rightarrow> merged_p_frame" where
  "with_steward_p m = map (\<lambda>(r, t). (r, t, round2 (fdiv (count_tree_id r) t))) m"

text \<open>\<open>pivot(columns='steward', index='health', values=..)\<close> on entries
  \<open>(health, steward, value)\<close>: a repeated (health, steward) pair raises ValueError;
  otherwise one row per distinct health value and one column per distinct steward value,
  both ascending, with NaN where no entry exists.\<close>

definition pivot :: "(string \<times> string \<times> fval) list \<Rightarrow> py_error + pivot_frame" where
  "pivot entries =
     (if \<not> distinct (map (\<lambda>(h, s, v). (h, s)) entries) then Inl ValueError
      else Inr (map (\<lambda>h. (h, map (\<lambda>s. (s, case map_of (map (\<lambda>(h, s, v). ((h, s), v)) entries) (h, s) of
                                              None \<Rightarrow> NaN | Some v \<Rightarrow> v))
                                (sort (remdups (map (\<lambda>(h, s, v). s) entries)))))
                 (sort (remdups (map (\<lambda>(h, s, v). h) entries)))))"

text \<open>\<open>.reindex(columns = categories, fill_value = 0)\<close>: keep the listed columns in the
  listed order; a column that did not exist is filled with the fill value.\<close>

definition reindex_columns :: "string list \<Rightarrow> fval \<Rightarrow> pivot_frame \<Rightarrow> (string \<times> fval list) list" where
  "reindex_columns cats fill_value fr =
     map (\<lambda>(h, cells). (h, map (\<lambda>c. case map_of cells c of None \<Rightarrow> fill_value | Some v \<Rightarrow> v) cats)) fr"

text \<open>Lines 123-129: \<open>.reindex(..).reset_index().fillna(0)\<close> after the pivot.\<close>

definition shape :: "string list \<Rightarrow> pivot_frame \<Rightarrow> wide_frame" where
  "shape cats fr =
     map (\<lambda>(l, h, cells). (l, h, map fillna cells)) (reset_index (reindex_columns cats (Num 0) fr))"

definition categories :: "string list" where
  "categories = [''0'', ''1-2'', ''3-4'', ''4+'']"

definition hover_of :: "merged_p_frame \<Rightarrow> py_error + wide_frame" where
  "hover_of steward_health =
     (case pivot (map (\<lambda>(r, t, p). (health r, steward r, Num (of_nat (count_tree_id r)))) steward_health) of
        Inl e \<Rightarrow> Inl e
      | Inr fr \<Rightarrow> Inr (shape categories fr))"

definition steward_health_of :: "merged_p_frame \<Rightarrow> py_error + wide_frame" where
  "steward_health_of steward_health =
     (case pivot (map (\<lambda>(r, t, p). (health r, steward r, p)) steward_health) of
        Inl e \<Rightarrow> Inl e
      | Inr fr \<Rightarrow> Inr (shape categories fr))"

text \<open>One \<open>go.Bar\<close> of lines 131-150: row \<open>k\<close> of both frames without its \<open>health\<close>
  entry; \<open>y\<close> is evaluated before \<open>text\<close>.\<close>

definition trace :: "nat \<Rightarrow> string \<Rightarrow> string \<Rightarrow> wide_frame \<Rightarrow> wide_frame \<Rightarrow> py_error + steward_bar" where
  "trace k color nm steward_health hover =
     (case loc k steward_health of
        Inl e \<Rightarrow> Inl e
      | Inr (h, ys) \<Rightarrow>
          (case loc k hover of
             Inl e \<Rightarrow> Inl e
           | Inr (h', ts) \<Rightarrow>
               Inr \<lparr> sb_x = categories, sb_y = ys, sb_text = ts,
                     sb_marker_color = color, sb_name = nm \<rparr>))"

text \<open>Lines 131-161: the three traces, in the order the code builds them, and the figure.\<close>

definition steward_figure_of :: "string \<Rightarrow> string \<Rightarrow> wide_frame \<Rightarrow> wide_frame
    \<Rightarrow> py_error + steward_figure" where
  "steward_figure_of borough species steward_health hover =
     (case trace 1 ''#109618'' ''Good'' steward_health hover of
        Inl e \<Rightarrow> Inl e
      | Inr trace1 \<Rightarrow>
     (case trace 0 ''#FFA15A'' ''Fair'' steward_health hover of
        Inl e \<Rightarrow> Inl e
      | Inr trace2 \<Rightarrow>
     (case trace 2 ''#990099'' ''Poor'' steward_health hover of
        Inl e \<Rightarrow> Inl e
      | Inr trace3 \<Rightarrow>
          Inr \<lparr> sf_data = [trace1, trace2, trace3],
                sf_title = ''Health of '' @ species @ '' Trees in '' @ borough @ '' by Stewardship'' \<rparr>)))"

definition merged_p :: "row list \<Rightarrow> merged_p_frame" where
  "merged_p df = with_steward_p (merge_totals df (groupby_sum steward df))"

definition stewardship :: "row list \<Rightarrow> string \<Rightarrow> string \<Rightarrow> py_error + steward_figure" where
  "stewardship nyctrees borough species =
     (let steward_health = merged_p (select_rows nyctrees borough species)
      in case hover_of steward_health of
           Inl e \<Rightarrow> Inl e
         | Inr hover \<Rightarrow>
             (case steward_health_of steward_health of
                Inl e \<Rightarrow> Inl e
              | Inr steward_health \<Rightarrow> steward_figure_of borough species steward_health hover))"

subsection \<open>The callbacks over an object store\<close>

text \<open>
  The callbacks read the module-level frame \<open>nyctrees\<close> and assign in place to frames of
  their own (\<open>health_prop.loc[2] = ..\<close>, \<open>health_prop['health'] = ..\<close>,
  \<open>steward_health['steward_p'] = ..\<close>). To say which object each assignment changes,
  frames live in a store, a list of objects addressed by position. Boolean-mask selection,
  \<open>reset_index\<close>, \<open>sort_values\<close>, \<open>merge\<close> and \<open>pivot\<close> chains return new objects; an
  in-place assignment rewrites the object at the address its variable holds. A callback
  run on a store whose \<open>nyctrees\<close> address holds no table stops with TypeError.
\<close>

datatype obj =
    Table "row list"
  | HealthFrame health_frame
  | CatFrame cat_frame
  | MergedFrame merged_frame
  | MergedPFrame merged_p_frame
  | WideFrame wide_frame

type_synonym store = "obj list"



definition modify_obj :: "nat \<Rightarrow> (obj \<Rightarrow> obj) \<Rightarrow> store \<Rightarrow> store" where
  "modify_obj a f st = (if a < length st then st[a := f (st ! a)] else st)"






subsection \<open>Notions used to state the properties\<close>

text \<open>The number of trees among the rows \<open>df\<close> that are in health state \<open>h\<close>, and the
  number of all trees among them.\<close>

definition health_count :: "string \<Rightarrow> row list \<Rightarrow> nat" where
  "health_count h df = sum_list (map count_tree_id (filter (\<lambda>r. health r = h) df))"

definition total_count :: "row list \<Rightarrow> nat" where
  "total_count df = sum_list (map count_tree_id df)"

text \<open>The rounded share of health state \<open>h\<close>, as line 83 computes it.\<close>

definition share :: "string \<Rightarrow> row list \<Rightarrow> fval" where
  "share h df = round2 (fdiv (health_count h df) (total_count df))"

text \<open>The proportion of a row within its steward bucket, as line 119 computes it, and the
  value the second view shows for health state \<open>h\<close> in bucket \<open>c\<close>: the proportion of the row
  of that cell, 0 for a missing cell or a missing bucket.\<close>

definition steward_p :: "row list \<Rightarrow> row \<Rightarrow> fval" where
  "steward_p df r =
     round2 (fdiv (count_tree_id r) (total_count (filter (\<lambda>r'. steward r' = steward r) df)))"

definition cell_value :: "row list \<Rightarrow> string \<Rightarrow> string \<Rightarrow> fval" where
  "cell_value df h c =
     (if c \<in> set (map steward df)
      then fillna (case find (\<lambda>r. health r = h \<and> steward r = c) df of
                     None \<Rightarrow> NaN | Some r \<Rightarrow> steward_p df r)
      else Num 0)"

text \<open>Float addition and the sum of a column: NaN absorbs, then infinity.\<close>

fun fadd :: "fval \<Rightarrow> fval \<Rightarrow> fval" where
  "fadd (Num a) (Num b) = Num (a + b)"
| "fadd NaN v = NaN"
| "fadd v NaN = NaN"
| "fadd PosInf v = PosInf"
| "fadd v PosInf = PosInf"

definition fsum :: "fval list \<Rightarrow> fval" where
  "fsum vs = foldl fadd (Num 0) vs"

text \<open>A sum of three proportions, each rounded to two decimals and so each off by at most
  0.005, is 1.0 within rounding when it is a number at most 0.015 away from 1.\<close>

fun sums_to_one :: "fval \<Rightarrow> bool" where
  "sums_to_one (Num s) \<longleftrightarrow> \<bar>s - 1\<bar> \<le> 3 / 200"
| "sums_to_one NaN \<longleftrightarrow> False"
| "sums_to_one PosInf \<longleftrightarrow> False"

text \<open>The \<open>y\<close> values and the \<open>x\<close> labels of the single bar trace of the first view.\<close>

definition health_y :: "health_figure \<Rightarrow> fval list" where
  "health_y fig = concat (map hb_y (hf_data fig))"

definition health_x :: "health_figure \<Rightarrow> string option list" where
  "health_x fig = concat (map hb_x (hf_data fig))"

subsection \<open>A sample table\<close>

definition tree_row :: "string \<Rightarrow> string \<Rightarrow> string \<Rightarrow> string \<Rightarrow> nat \<Rightarrow> row" where
  "tree_row b s h st c =
     \<lparr> spc_common = s, boroname = b, health = h, steward = st, count_tree_id = c \<rparr>"

text \<open>Red maples in the Bronx are Good 30 (in two steward buckets) and Fair 10, with no Poor
  row; ginkgos in Queens have all three health states; oaks in Queens are all Good; the
  one row of oaks in the Bronx has count 0; there is no ginkgo row for the Bronx.\<close>

definition sample_table :: "row list" where
  "sample_table =
     [tree_row ''Bronx'' ''Red Maple'' ''Good'' ''0'' 20,
      tree_row ''Bronx'' ''Red Maple'' ''Good'' ''1-2'' 10,
      tree_row ''Bronx'' ''Red Maple'' ''Fair'' ''0'' 10,
      tree_row ''Queens'' ''Ginkgo'' ''Good'' ''0'' 7,
      tree_row ''Queens'' ''Ginkgo'' ''Fair'' ''0'' 2,
      tree_row ''Queens'' ''Ginkgo'' ''Poor'' ''4+'' 3,
      tree_row ''Queens'' ''Oak'' ''Good'' ''0'' 3,
      tree_row ''Bronx'' ''Oak'' ''Good'' ''0'' 0]"

section \<open>Properties of the data loader\<close>

lemma notna_fields:
  "notna r \<longleftrightarrow> (\<exists>s b h st c. raw_spc_common r = Some s \<and> raw_boroname r = Some b
      \<and> raw_health r = Some h \<and> raw_steward r = Some st \<and> raw_count_tree_id r = Some c)"
  by (auto simp: notna_def)

lemma count_list_filter:
  "count_list (filter P xs) x = (if P x then count_list xs x else 0)"
  by (induction xs) auto

text \<open>
  C6. The data-load step rewrites the steward column cell by cell with \<open>tidy_steward\<close>,
  which sends the raw label \<open>None\<close> to \<open>0\<close>, \<open>1or2\<close> to \<open>1-2\<close>, \<open>3or4\<close> to \<open>3-4\<close> and
  \<open>4orMore\<close> to \<open>4+\<close>, and returns every other value unchanged.
\<close>

theorem steward_labels:
  "map steward (load_nyctrees fetched) = map (\<lambda>r. tidy_steward (the (raw_steward r))) (dropna fetched)
   \<and> tidy_steward ''None'' = ''0''
   \<and> tidy_steward ''1or2'' = ''1-2''
   \<and> tidy_steward ''3or4'' = ''3-4''
   \<and> tidy_steward ''4orMore'' = ''4+''
   \<and> (s \<notin> {''None'', ''1or2'', ''3or4'', ''4orMore''} \<longrightarrow> tidy_steward s = s)"
  by (simp add: load_nyctrees_def tidy_row_def tidy_steward_def replace_val_def)

theorem steward_labels_witness:
  "''2'' \<notin> {''None'', ''1or2'', ''3or4'', ''4orMore''} \<and> tidy_steward ''2'' = ''2''
   \<and> map steward (load_nyctrees
        [\<lparr> raw_spc_common = Some ''ginkgo'', raw_boroname = Some ''Bronx'', raw_health = Some ''Good'',
            raw_steward = Some ''3or4'', raw_count_tree_id = Some 4 \<rparr>,
         \<lparr> raw_spc_common = Some ''ginkgo'', raw_boroname = Some ''Bronx'', raw_health = Some ''Fair'',
            raw_steward = Some ''2'', raw_count_tree_id = Some 1 \<rparr>]) = [''3-4'', ''2'']"
  using steward_labels [of
        "[\<lparr> raw_spc_common = Some ''ginkgo'', raw_boroname = Some ''Bronx'', raw_health = Some ''Good'',
            raw_steward = Some ''3or4'', raw_count_tree_id = Some 4 \<rparr>,
         \<lparr> raw_spc_common = Some ''ginkgo'', raw_boroname = Some ''Bronx'', raw_health = Some ''Fair'',
            raw_steward = Some ''2'', raw_count_tree_id = Some 1 \<rparr>]" "''2''"]
  by (simp add: dropna_def notna_def)

text \<open>
  C7. The loaded table is built from exactly the fetched rows without a missing field:
  every row that survives \<open>dropna\<close> has all five fields present, a fetched row with a
  missing field does not survive, and a fully populated row survives as often as it was
  fetched; the loaded table has one row per surviving row.
\<close>

theorem dropna_keeps_complete_rows:
  "(\<forall>r \<in> set (dropna fetched).
       raw_spc_common r \<noteq> None \<and> raw_boroname r \<noteq> None \<and> raw_health r \<noteq> None
       \<and> raw_steward r \<noteq> None \<and> raw_count_tree_id r \<noteq> None)
   \<and> (\<forall>r \<in> set fetched.
       (raw_spc_common r = None \<or> raw_boroname r = None \<or> raw_health r = None
        \<or> raw_steward r = None \<or> raw_count_tree_id r = None) \<longrightarrow> r \<notin> set (dropna fetched))
   \<and> (\<forall>r \<in> set fetched.
       (raw_spc_common r \<noteq> None \<and> raw_boroname r \<noteq> None \<and> raw_health r \<noteq> None
        \<and> raw_steward r \<noteq> None \<and> raw_count_tree_id r \<noteq> None)
       \<longrightarrow> count_list (dropna fetched) r = count_list fetched r)
   \<and> load_nyctrees fetched = map tidy_row (dropna fetched)
   \<and> length (load_nyctrees fetched) = length (dropna fetched)"
  by (auto simp: dropna_def notna_def load_nyctrees_def count_list_filter)

theorem dropna_keeps_complete_rows_witness:
  "dropna
     [\<lparr> raw_spc_common = Some ''ginkgo'', raw_boroname = Some ''Bronx'', raw_health = None,
         raw_steward = Some ''None'', raw_count_tree_id = Some 4 \<rparr>,
      \<lparr> raw_spc_common = Some ''ginkgo'', raw_boroname = Some ''Bronx'', raw_health = Some ''Fair'',
         raw_steward = Some ''None'', raw_count_tree_id = Some 1 \<rparr>]
   = [\<lparr> raw_spc_common = Some ''ginkgo'', raw_boroname = Some ''Bronx'', raw_health = Some ''Fair'',
         raw_steward = Some ''None'', raw_count_tree_id = Some 1 \<rparr>]
   \<and> length (load_nyctrees
     [\<lparr> raw_spc_common = Some ''ginkgo'', raw_boroname = Some ''Bronx'', raw_health = None,
         raw_steward = Some ''None'', raw_count_tree_id = Some 4 \<rparr>,
      \<lparr> raw_spc_common = Some ''ginkgo'', raw_boroname = Some ''Bronx'', raw_health = Some ''Fair'',
         raw_steward = Some ''None'', raw_count_tree_id = Some 1 \<rparr>]) = 1"
  using dropna_keeps_complete_rows [of
     "[\<lparr> raw_spc_common = Some ''ginkgo'', raw_boroname = Some ''Bronx'', raw_health = None,
         raw_steward = Some ''None'', raw_count_tree_id = Some 4 \<rparr>,
      \<lparr> raw_spc_common = Some ''ginkgo'', raw_boroname = Some ''Bronx'', raw_health = Some ''Fair'',
         raw_steward = Some ''None'', raw_count_tree_id = Some 1 \<rparr>]"]
  by (simp add: dropna_def notna_def)

text \<open>
  C8. Title-casing the raw species name \<open>'Schubert' chokecherry\<close> gives
  \<open>'Schubert' Chokecherry\<close>, which the replacement turns into \<open>Schubert Chokecherry\<close>; the
  loaded table carries that final value.
\<close>

theorem schubert_chokecherry_normalized:
  "title schubert_raw = schubert_titled
   \<and> tidy_species schubert_raw = ''Schubert Chokecherry''
   \<and> map spc_common (load_nyctrees
        [\<lparr> raw_spc_common = Some schubert_raw, raw_boroname = Some ''Queens'',
            raw_health = Some ''Good'', raw_steward = Some ''None'', raw_count_tree_id = Some 12 \<rparr>])
       = [''Schubert Chokecherry'']"
  by (simp add: load_nyctrees_def dropna_def notna_def tidy_row_def tidy_species_def
      replace_val_def title_def schubert_raw_def schubert_titled_def
      to_upper_def to_lower_def is_cased_def ascii_lowercase_def ascii_uppercase_def)

section \<open>Properties of the first view\<close>

subsection \<open>Rounding\<close>

lemma round_half_even_error: "\<bar>of_int (round_half_even q) - q\<bar> \<le> 1 / 2"
proof -
  have "of_int \<lfloor>q\<rfloor> \<le> q" "q < of_int \<lfloor>q\<rfloor> + 1" by linarith+
  then show ?thesis
    unfolding round_half_even_def Let_def by (auto simp: abs_le_iff)
qed

lemma round2_error: "\<bar>of_int (round_half_even (x * 100)) / 100 - x\<bar> \<le> 1 / 200"
proof -
  define r :: rat where "r = of_int (round_half_even (x * 100))"
  have "\<bar>r - x * 100\<bar> \<le> 1 / 2"
    unfolding r_def by (rule round_half_even_error)
  then have "\<bar>r / 100 - x\<bar> \<le> 1 / 200" by linarith
  then show ?thesis by (simp only: r_def)
qed

lemma rounded_sum3:
  fixes a b c x y z :: rat
  assumes "\<bar>a - x\<bar> \<le> 1 / 200" "\<bar>b - y\<bar> \<le> 1 / 200" "\<bar>c - z\<bar> \<le> 1 / 200" "x + y + z = 1"
  shows "\<bar>sum_list [a, b, c] - 1\<bar> \<le> 3 / 200"
proof -
  have "\<bar>a + b + c - 1\<bar> \<le> 3 / 200" using assms by linarith
  then show ?thesis by (simp add: add.assoc)
qed


lemma foldl_fadd_Num: "foldl fadd (Num a) (map Num qs) = Num (a + sum_list qs)"
  by (induction qs arbitrary: a) (simp_all add: add.assoc)

lemma fsum_Num: "fsum (map Num qs) = Num (sum_list qs)"
  by (simp add: fsum_def foldl_fadd_Num)

subsection \<open>Group keys\<close>

lemma keys_sorted_list: "sort (remdups xs) = sorted_list_of_set (set xs)"
  by (simp add: sorted_list_of_set_sort_remdups)

lemma keys_FGP:
  "set xs = {''Fair'', ''Good'', ''Poor''} \<Longrightarrow> sort (remdups xs) = [''Fair'', ''Good'', ''Poor'']"
  by (simp add: keys_sorted_list)

lemma keys_FG: "set xs = {''Fair'', ''Good''} \<Longrightarrow> sort (remdups xs) = [''Fair'', ''Good'']"
  by (simp add: keys_sorted_list)




lemma subsets_of_three_cases [consumes 2, case_names abc ab ac bc a b c]:
  assumes "A \<subseteq> {a, b, c}" and "A \<noteq> {}"
  obtains "A = {a, b, c}" | "A = {a, b}" | "A = {a, c}" | "A = {b, c}"
    | "A = {a}" | "A = {b}" | "A = {c}"
proof -
  consider "a \<in> A \<and> b \<in> A \<and> c \<in> A" | "a \<in> A \<and> b \<in> A \<and> c \<notin> A"
    | "a \<in> A \<and> b \<notin> A \<and> c \<in> A" | "a \<notin> A \<and> b \<in> A \<and> c \<in> A"
    | "a \<in> A \<and> b \<notin> A \<and> c \<notin> A" | "a \<notin> A \<and> b \<in> A \<and> c \<notin> A"
    | "a \<notin> A \<and> b \<notin> A \<and> c \<in> A" | "a \<notin> A \<and> b \<notin> A \<and> c \<notin> A"
    by blast
  then show thesis
  proof cases
    case 1
    then have "A = {a, b, c}" using assms(1) by auto
    then show ?thesis by (rule that(1))
  next
    case 2
    then have "A = {a, b}" using assms(1) by auto
    then show ?thesis by (rule that(2))
  next
    case 3
    then have "A = {a, c}" using assms(1) by auto
    then show ?thesis by (rule that(3))
  next
    case 4
    then have "A = {b, c}" using assms(1) by auto
    then show ?thesis by (rule that(4))
  next
    case 5
    then have "A = {a}" using assms(1) by auto
    then show ?thesis by (rule that(5))
  next
    case 6
    then have "A = {b}" using assms(1) by auto
    then show ?thesis by (rule that(6))
  next
    case 7
    then have "A = {c}" using assms(1) by auto
    then show ?thesis by (rule that(7))
  next
    case 8
    then have "A = {}" using assms(1) by auto
    then show ?thesis using assms(2) by simp
  qed
qed

subsection \<open>The table of the first view, by the health states present\<close>

lemma groupby_sum_health:
  "groupby_sum health df = map (\<lambda>k. (k, health_count k df)) (sort (remdups (map health df)))"
  by (simp add: groupby_sum_def health_count_def)

lemma health_shares_alt:
  "health_shares df = reset_index (map (\<lambda>k. (k, share k df)) (sort (remdups (map health df))))"
  by (simp add: health_shares_def groupby_sum_health share_def total_count_def comp_def)

lemmas table_defs = health_table_def health_shares_alt reset_index_def fill_missing_def
  fill_step_def loc_set_def to_categorical_def categorical_def sort_values_def cat_code_def
  health_order_def

lemma health_table_FGP:
  "set (map health df) = {''Fair'', ''Good'', ''Poor''} \<Longrightarrow>
   health_table df = [(1, Some ''Good'', share ''Good'' df), (0, Some ''Fair'', share ''Fair'' df),
                      (2, Some ''Poor'', share ''Poor'' df)]"
  by (simp add: table_defs keys_FGP)

lemma health_table_FG:
  "set (map health df) = {''Fair'', ''Good''} \<Longrightarrow>
   health_table df = [(1, Some ''Good'', share ''Good'' df), (0, Some ''Fair'', share ''Fair'' df),
                      (2, Some ''Poor'', Num 0)]"
  by (simp add: table_defs keys_FG)






lemma health_table_empty: "health_table [] = [(2, Some ''Poor'', Num 0)]"
  by (simp add: table_defs)

lemma health_y_table:
  "health_y (health_prop nyctrees borough species)
     = map (\<lambda>(l, c, v). v) (health_table (select_rows nyctrees borough species))"
  by (simp add: health_y_def health_prop_def health_figure_of_def)

lemma health_x_table:
  "health_x (health_prop nyctrees borough species)
     = map (\<lambda>(l, c, v). c) (health_table (select_rows nyctrees borough species))"
  by (simp add: health_x_def health_prop_def health_figure_of_def)

subsection \<open>Counts\<close>

lemma health_count_absent: "h \<notin> set (map health df) \<Longrightarrow> health_count h df = 0"
  by (induction df) (auto simp: health_count_def)

lemma health_count_partition:
  "set (map health df) \<subseteq> {''Fair'', ''Good'', ''Poor''} \<Longrightarrow>
   health_count ''Fair'' df + health_count ''Good'' df + health_count ''Poor'' df = total_count df"
  by (induction df) (auto simp: health_count_def total_count_def)

lemma share_num:
  assumes "0 < total_count df"
  shows "\<exists>q. share h df = Num q
           \<and> \<bar>q - of_nat (health_count h df) / of_nat (total_count df)\<bar> \<le> 1 / 200"
proof -
  let ?x = "of_nat (health_count h df) / of_nat (total_count df) :: rat"
  have "share h df = Num (of_int (round_half_even (?x * 100)) / 100)"
    using assms by (simp add: share_def fdiv_def)
  then show ?thesis using round2_error [of ?x] by blast
qed


lemmas sample_defs = sample_table_def tree_row_def select_rows_def

subsection \<open>Claims about the first view\<close>




text \<open>
  C4 at a selection with two health states absent. The oaks of Queens are all Good. The
  loop of lines 85-87 writes every missing state to the same index label 2, so the row for
  Fair is overwritten by the row for Poor: the output has the rows Good and Poor only, and
  Fair does not appear with a proportion of zero.
\<close>

theorem health_prop_two_states_absent:
  "health_x (health_prop sample_table ''Queens'' ''Oak'') = [Some ''Good'', Some ''Poor'']
   \<and> health_y (health_prop sample_table ''Queens'' ''Oak'') = [Num 1, Num 0]
   \<and> Some ''Fair'' \<notin> set (health_x (health_prop sample_table ''Queens'' ''Oak''))"
  by (simp add: sample_defs health_x_def health_y_def health_prop_def health_figure_of_def table_defs
      share_def health_count_def total_count_def fdiv_def round_half_even_def)

text \<open>
  C5. When the matching rows (all Good, Fair or Poor) count 30 Good trees, 10 Fair trees
  and no Poor tree, with or without a Poor row, \<open>health_prop\<close> returns the labels Good,
  Fair, Poor in this order with the proportions 0.75, 0.25 and 0.
\<close>

theorem health_prop_30_10_0:
  assumes health: "set (map health (select_rows nyctrees borough species)) \<subseteq> {''Fair'', ''Good'', ''Poor''}"
    and good: "health_count ''Good'' (select_rows nyctrees borough species) = 30"
    and fair: "health_count ''Fair'' (select_rows nyctrees borough species) = 10"
    and poor: "health_count ''Poor'' (select_rows nyctrees borough species) = 0"
  shows "health_x (health_prop nyctrees borough species) = [Some ''Good'', Some ''Fair'', Some ''Poor'']
       \<and> health_y (health_prop nyctrees borough species) = [Num (3 / 4), Num (1 / 4), Num 0]"
proof -
  define df where "df = select_rows nyctrees borough species"
  have total: "total_count df = 40"
    using health_count_partition [OF health] good fair poor by (simp add: df_def)
  have sg: "share ''Good'' df = Num (3 / 4)"
    using good total by (simp add: share_def fdiv_def df_def round_half_even_def)
  have sf: "share ''Fair'' df = Num (1 / 4)"
    using fair total by (simp add: share_def fdiv_def df_def round_half_even_def)
  have sp: "share ''Poor'' df = Num 0"
    using poor total by (simp add: share_def fdiv_def df_def round_half_even_def)
  have ne: "set (map health df) \<noteq> {}"
    using health_count_absent [of "''Good''" df] good by (auto simp: df_def)
  have g: "''Good'' \<notin> set (map health df) \<Longrightarrow> False"
    using health_count_absent [of "''Good''" df] good by (simp add: df_def)
  have f: "''Fair'' \<notin> set (map health df) \<Longrightarrow> False"
    using health_count_absent [of "''Fair''" df] fair by (simp add: df_def)
  from health ne
  have "health_table df = [(1, Some ''Good'', Num (3 / 4)), (0, Some ''Fair'', Num (1 / 4)),
      (2, Some ''Poor'', Num 0)]"
    unfolding df_def [symmetric]
  proof (cases rule: subsets_of_three_cases)
    case abc
    then show ?thesis by (simp add: health_table_FGP sg sf sp)
  next
    case ab
    then show ?thesis by (simp add: health_table_FG sg sf)
  next
    case ac
    then show ?thesis using g by simp
  next
    case bc
    then show ?thesis using f by simp
  next
    case a
    then show ?thesis using g by simp
  next
    case b
    then show ?thesis using f by simp
  next
    case c
    then show ?thesis using g by simp
  qed
  then show ?thesis by (simp add: health_x_table health_y_table df_def [symmetric])
qed

text \<open>The red maples of the Bronx in the sample table are such a selection.\<close>

theorem health_prop_30_10_0_witness:
  "set (map health (select_rows sample_table ''Bronx'' ''Red Maple'')) \<subseteq> {''Fair'', ''Good'', ''Poor''}
   \<and> health_count ''Good'' (select_rows sample_table ''Bronx'' ''Red Maple'') = 30
   \<and> health_count ''Fair'' (select_rows sample_table ''Bronx'' ''Red Maple'') = 10
   \<and> health_count ''Poor'' (select_rows sample_table ''Bronx'' ''Red Maple'') = 0
   \<and> health_x (health_prop sample_table ''Bronx'' ''Red Maple'') = [Some ''Good'', Some ''Fair'', Some ''Poor'']
   \<and> health_y (health_prop sample_table ''Bronx'' ''Red Maple'') = [Num (3 / 4), Num (1 / 4), Num 0]"
  using health_prop_30_10_0 [of sample_table "''Bronx''" "''Red Maple''"]
  by (simp add: sample_defs health_count_def)

section \<open>Properties of the second view\<close>

subsection \<open>The merge with the steward totals\<close>

lemma filter_key_unique:
  "distinct ks \<Longrightarrow> k \<in> set ks \<Longrightarrow>
   filter (\<lambda>(k', t). k' = k) (map (\<lambda>k. (k, f k)) ks) = [(k, f k)]"
proof (induction ks)
  case Nil
  then show ?case by simp
next
  case (Cons x ks)
  show ?case
  proof (cases "x = k")
    case True
    then have "k \<notin> set ks" using Cons.prems(1) by simp
    then have "filter (\<lambda>(k', t). k' = k) (map (\<lambda>k. (k, f k)) ks) = []"
      by (auto simp: filter_empty_conv)
    with True show ?thesis by simp
  next
    case False
    then show ?thesis using Cons by auto
  qed
qed

lemma concat_map_singleton: "(\<And>x. x \<in> set xs \<Longrightarrow> g x = [h x]) \<Longrightarrow> concat (map g xs) = map h xs"
  by (induction xs) simp_all

lemma groupby_sum_steward:
  "groupby_sum steward df
     = map (\<lambda>k. (k, total_count (filter (\<lambda>r. steward r = k) df))) (sort (remdups (map steward df)))"
  by (simp add: groupby_sum_def total_count_def)

lemma merge_totals_eq:
  "merge_totals df (groupby_sum steward df)
     = map (\<lambda>r. (r, total_count (filter (\<lambda>r'. steward r' = steward r) df))) df"
proof -
  let ?f = "\<lambda>k. total_count (filter (\<lambda>r. steward r = k) df)"
  let ?ks = "sort (remdups (map steward df))"
  have "map (\<lambda>(k, t). (r, t)) (filter (\<lambda>(k, t). k = steward r) (map (\<lambda>k. (k, ?f k)) ?ks))
          = [(r, ?f (steward r))]" if "r \<in> set df" for r
  proof -
    have "distinct ?ks" "steward r \<in> set ?ks" using that by simp_all
    then show ?thesis by (simp add: filter_key_unique)
  qed
  then show ?thesis
    unfolding merge_totals_def groupby_sum_steward by (rule concat_map_singleton)
qed

text \<open>The proportion of a row within its steward bucket, as line 119 computes it.\<close>

lemma merged_p_eq:
  "merged_p df = map (\<lambda>r. (r, total_count (filter (\<lambda>r'. steward r' = steward r) df),
       round2 (fdiv (count_tree_id r) (total_count (filter (\<lambda>r'. steward r' = steward r) df))))) df"
  by (simp add: merged_p_def merge_totals_eq with_steward_p_def)

subsection \<open>The pivoted frames\<close>

lemma pivot_index:
  assumes "distinct (map (\<lambda>(h, s, v). (h, s)) es)"
  shows "\<exists>fr. pivot es = Inr fr \<and> map fst fr = sort (remdups (map (\<lambda>(h, s, v). h) es))"
  using assms by (simp add: pivot_def comp_def)

lemma three_rows:
  assumes "map fst fr = [x, y, z]"
  obtains a b c where "fr = [(x, a), (y, b), (z, c)]"
proof -
  from assms obtain p q r where fr: "fr = [p, q, r]"
    by (auto simp: map_eq_Cons_conv)
  with assms have "p = (x, snd p)" "q = (y, snd q)" "r = (z, snd r)"
    by (auto simp: prod_eq_iff)
  with fr have "fr = [(x, snd p), (y, snd q), (z, snd r)]" by simp
  then show thesis by (rule that)
qed

lemma shape_three_rows:
  "\<exists>a' b' c'. shape cats [(x, a), (y, b), (z, c)] = [(0, x, a'), (1, y, b'), (2, z, c')]"
  by (simp add: shape_def reindex_columns_def reset_index_def upt_rec)

lemma pivot_entries_keys:
  "map (\<lambda>(h, s, v). (h, s)) (map (\<lambda>(r, t, p). (health r, steward r, f r t p)) m)
     = map (\<lambda>(r, t, p). (health r, steward r)) m"
  "map (\<lambda>(h, s, v). h) (map (\<lambda>(r, t, p). (health r, steward r, f r t p)) m)
     = map (\<lambda>(r, t, p). health r) m"
  by (simp_all add: comp_def case_prod_beta)

lemma merged_p_keys:
  "map (\<lambda>(r, t, p). (health r, steward r)) (merged_p df) = map (\<lambda>r. (health r, steward r)) df"
  "map (\<lambda>(r, t, p). health r) (merged_p df) = map health df"
  by (simp_all add: merged_p_eq comp_def)

lemma wide_frames_FGP:
  assumes health: "set (map health df) = {''Fair'', ''Good'', ''Poor''}"
    and cells: "distinct (map (\<lambda>r. (health r, steward r)) df)"
  shows "\<exists>f g p. steward_health_of (merged_p df) = Inr [(0, ''Fair'', f), (1, ''Good'', g), (2, ''Poor'', p)]"
    and "\<exists>f g p. hover_of (merged_p df) = Inr [(0, ''Fair'', f), (1, ''Good'', g), (2, ''Poor'', p)]"
proof -
  have keys: "sort (remdups (map health df)) = [''Fair'', ''Good'', ''Poor'']"
    using health by (rule keys_FGP)
  let ?es = "map (\<lambda>(r, t, p). (health r, steward r, p)) (merged_p df)"
  have "distinct (map (\<lambda>(h, s, v). (h, s)) ?es)"
    using cells by (simp only: pivot_entries_keys merged_p_keys)
  then obtain fr where fr: "pivot ?es = Inr fr"
    "map fst fr = sort (remdups (map (\<lambda>(h, s, v). h) ?es))"
    using pivot_index by blast
  from fr(2) have "map fst fr = [''Fair'', ''Good'', ''Poor'']"
    by (simp only: pivot_entries_keys merged_p_keys keys)
  then obtain a b c where "fr = [(''Fair'', a), (''Good'', b), (''Poor'', c)]"
    by (rule three_rows)
  with fr(1) shape_three_rows [of categories "''Fair''" a "''Good''" b "''Poor''" c]
  show "\<exists>f g p. steward_health_of (merged_p df) = Inr [(0, ''Fair'', f), (1, ''Good'', g), (2, ''Poor'', p)]"
    by (auto simp: steward_health_of_def)
next
  have keys: "sort (remdups (map health df)) = [''Fair'', ''Good'', ''Poor'']"
    using health by (rule keys_FGP)
  let ?es = "map (\<lambda>(r, t, p). (health r, steward r, Num (of_nat (count_tree_id r)))) (merged_p df)"
  have "distinct (map (\<lambda>(h, s, v). (h, s)) ?es)"
    using cells by (simp only: pivot_entries_keys merged_p_keys)
  then obtain fr where fr: "pivot ?es = Inr fr"
    "map fst fr = sort (remdups (map (\<lambda>(h, s, v). h) ?es))"
    using pivot_index by blast
  from fr(2) have "map fst fr = [''Fair'', ''Good'', ''Poor'']"
    by (simp only: pivot_entries_keys merged_p_keys keys)
  then obtain a b c where "fr = [(''Fair'', a), (''Good'', b), (''Poor'', c)]"
    by (rule three_rows)
  with fr(1) shape_three_rows [of categories "''Fair''" a "''Good''" b "''Poor''" c]
  show "\<exists>f g p. hover_of (merged_p df) = Inr [(0, ''Fair'', f), (1, ''Good'', g), (2, ''Poor'', p)]"
    by (auto simp: hover_of_def)
qed

subsection \<open>The cells of the pivoted frame\<close>

lemma merged_p_eq':
  "merged_p df = map (\<lambda>r. (r, total_count (filter (\<lambda>r'. steward r' = steward r) df), steward_p df r)) df"
  by (simp add: merged_p_eq steward_p_def)


lemma map_of_tabulate: "map_of (map (\<lambda>k. (k, f k)) ks) c = (if c \<in> set ks then Some (f c) else None)"
  by (induction ks) simp_all

lemma map_of_cells:
  "map_of (map (\<lambda>r. ((health r, steward r), g r)) df) (h, c)
     = map_option g (find (\<lambda>r. health r = h \<and> steward r = c) df)"
  by (induction df) auto

lemma health_count_no_cell:
  "(h, c) \<notin> set (map (\<lambda>r. (health r, steward r)) df) \<Longrightarrow>
   health_count h (filter (\<lambda>r. steward r = c) df) = 0"
  by (induction df) (auto simp: health_count_def)

lemma health_count_cell:
  "distinct (map (\<lambda>r. (health r, steward r)) df) \<Longrightarrow>
   health_count h (filter (\<lambda>r. steward r = c) df)
     = (case find (\<lambda>r. health r = h \<and> steward r = c) df of None \<Rightarrow> 0 | Some r \<Rightarrow> count_tree_id r)"
proof (induction df)
  case Nil
  then show ?case by (simp add: health_count_def)
next
  case (Cons r df)
  show ?case
  proof (cases "health r = h \<and> steward r = c")
    case True
    then have "(h, c) \<notin> set (map (\<lambda>r. (health r, steward r)) df)"
      using Cons.prems by auto
    then have "health_count h (filter (\<lambda>r. steward r = c) df) = 0"
      by (rule health_count_no_cell)
    then show ?thesis using True by (simp add: health_count_def)
  next
    case False
    then show ?thesis using Cons by (auto simp: health_count_def)
  qed
qed

lemma find_cell:
  "find (\<lambda>r. health r = h \<and> steward r = c) df = Some r \<Longrightarrow> health r = h \<and> steward r = c"
  by (induction df) (auto split: if_splits)

text \<open>With one row per cell, the value shown for health state \<open>h\<close> in a bucket \<open>c\<close> that has
  a positive total is the rounded share of \<open>h\<close> among the rows of the bucket.\<close>

lemma cell_is_share:
  assumes cells: "distinct (map (\<lambda>r. (health r, steward r)) df)"
    and total: "0 < total_count (filter (\<lambda>r. steward r = c) df)"
  shows "fillna (case find (\<lambda>r. health r = h \<and> steward r = c) df of
                   None \<Rightarrow> NaN | Some r \<Rightarrow> steward_p df r)
         = share h (filter (\<lambda>r. steward r = c) df)"
proof (cases "find (\<lambda>r. health r = h \<and> steward r = c) df")
  case None
  then have "health_count h (filter (\<lambda>r. steward r = c) df) = 0"
    using health_count_cell [OF cells, of h c] by simp
  then show ?thesis using None total by (simp add: share_def fdiv_def round_half_even_def)
next
  case (Some r)
  then have r: "steward r = c" using find_cell by blast
  have "health_count h (filter (\<lambda>r. steward r = c) df) = count_tree_id r"
    using health_count_cell [OF cells, of h c] Some by simp
  then show ?thesis using Some total r by (simp add: share_def steward_p_def fdiv_def)
qed

lemma raw_cell:
  "(case map_of (map (\<lambda>r. ((health r, steward r), g r)) df) (h, c) of None \<Rightarrow> NaN | Some v \<Rightarrow> v)
     = (case find (\<lambda>r. health r = h \<and> steward r = c) df of None \<Rightarrow> NaN | Some r \<Rightarrow> g r)"
  by (cases "find (\<lambda>r. health r = h \<and> steward r = c) df") (simp_all add: map_of_cells)

lemma cell_value_share:
  assumes "distinct (map (\<lambda>r. (health r, steward r)) df)"
    and "0 < total_count (filter (\<lambda>r. steward r = c) df)"
  shows "cell_value df h c = share h (filter (\<lambda>r. steward r = c) df)"
proof -
  have "filter (\<lambda>r. steward r = c) df \<noteq> []"
    using assms(2) by (auto simp: total_count_def)
  then have "c \<in> set (map steward df)"
    by (auto simp: filter_empty_conv)
  then show ?thesis
    using cell_is_share [OF assms, of h] by (simp add: cell_value_def)
qed

lemma cell_value_no_rows: "filter (\<lambda>r. steward r = c) df = [] \<Longrightarrow> cell_value df h c = Num 0"
  by (auto simp: cell_value_def filter_empty_conv)

lemma pivot_row_cells:
  "map (\<lambda>c. fillna (case map_of (map (\<lambda>s. (s, case map_of (map (\<lambda>r. ((health r, steward r), steward_p df r)) df) (h, s) of
                                               None \<Rightarrow> NaN | Some v \<Rightarrow> v))
                                   (sort (remdups (map steward df)))) c of
                       None \<Rightarrow> Num 0 | Some v \<Rightarrow> v)) cats
     = map (cell_value df h) cats"
  by (rule map_cong [OF refl])
     (simp add: map_of_tabulate raw_cell cell_value_def)

lemma steward_health_cells:
  assumes health: "set (map health df) = {''Fair'', ''Good'', ''Poor''}"
    and cells: "distinct (map (\<lambda>r. (health r, steward r)) df)"
  shows "steward_health_of (merged_p df)
     = Inr [(0, ''Fair'', map (cell_value df ''Fair'') categories),
            (1, ''Good'', map (cell_value df ''Good'') categories),
            (2, ''Poor'', map (cell_value df ''Poor'') categories)]"
proof -
  have keys: "sort (remdups (map health df)) = [''Fair'', ''Good'', ''Poor'']"
    using health by (rule keys_FGP)
  let ?es = "map (\<lambda>r. (health r, steward r, steward_p df r)) df"
  have es: "map (\<lambda>(r, t, p). (health r, steward r, p)) (merged_p df) = ?es"
    by (simp add: merged_p_eq' comp_def)
  have k: "map (\<lambda>(h, s, v). (h, s)) ?es = map (\<lambda>r. (health r, steward r)) df"
    "map (\<lambda>(h, s, v). h) ?es = map health df"
    "map (\<lambda>(h, s, v). s) ?es = map steward df"
    "map (\<lambda>(h, s, v). ((h, s), v)) ?es = map (\<lambda>r. ((health r, steward r), steward_p df r)) df"
    by (simp_all add: comp_def)
  have "pivot ?es = Inr (map (\<lambda>h. (h, map (\<lambda>s. (s, case map_of (map (\<lambda>r. ((health r, steward r), steward_p df r)) df) (h, s) of
                                              None \<Rightarrow> NaN | Some v \<Rightarrow> v))
                                (sort (remdups (map steward df)))))
                 [''Fair'', ''Good'', ''Poor''])"
    unfolding pivot_def k keys using cells by simp
  then show ?thesis
    unfolding steward_health_of_def es
    by (simp add: shape_def reindex_columns_def reset_index_def upt_rec comp_def pivot_row_cells)
qed

lemma shares_sum_to_one:
  assumes health: "set (map health df) \<subseteq> {''Fair'', ''Good'', ''Poor''}"
    and total: "0 < total_count df"
  shows "sums_to_one (fsum [share ''Good'' df, share ''Fair'' df, share ''Poor'' df])"
proof -
  define xf xg xp :: rat
    where "xf = of_nat (health_count ''Fair'' df) / of_nat (total_count df)"
      and "xg = of_nat (health_count ''Good'' df) / of_nat (total_count df)"
      and "xp = of_nat (health_count ''Poor'' df) / of_nat (total_count df)"
  have "health_count ''Fair'' df + health_count ''Good'' df + health_count ''Poor'' df = total_count df"
    using health by (simp add: health_count_partition)
  then have "(of_nat (health_count ''Fair'' df) + of_nat (health_count ''Good'' df)
      + of_nat (health_count ''Poor'' df) :: rat) = of_nat (total_count df)"
    by (metis of_nat_add)
  then have "xf + xg + xp = 1"
    using total unfolding xf_def xg_def xp_def
    by (simp add: add_divide_distrib [symmetric])
  then have one: "xg + xf + xp = 1" by linarith
  obtain qf where qf: "share ''Fair'' df = Num qf" "\<bar>qf - xf\<bar> \<le> 1 / 200"
    using share_num [OF total, of "''Fair''"] unfolding xf_def by blast
  obtain qg where qg: "share ''Good'' df = Num qg" "\<bar>qg - xg\<bar> \<le> 1 / 200"
    using share_num [OF total, of "''Good''"] unfolding xg_def by blast
  obtain qp where qp: "share ''Poor'' df = Num qp" "\<bar>qp - xp\<bar> \<le> 1 / 200"
    using share_num [OF total, of "''Poor''"] unfolding xp_def by blast
  have "fsum [share ''Good'' df, share ''Fair'' df, share ''Poor'' df] = Num (sum_list [qg, qf, qp])"
    using fsum_Num [of "[qg, qf, qp]"] by (simp add: qf qg qp)
  then show ?thesis
    using rounded_sum3 [OF qg(2) qf(2) qp(2) one] by simp
qed

text \<open>
  What the second view shows when its lookups succeed: the trace of each health state
  carries that state's cell values over the four buckets; in a bucket with a positive
  total the three values are the rounded shares within the bucket and sum to 1.0 within
  rounding; in a bucket without matching rows they are all zero.
\<close>

lemma stewardship_bucket_proportions:
  assumes health: "set (map health (select_rows nyctrees borough species)) = {''Fair'', ''Good'', ''Poor''}"
    and cells: "distinct (map (\<lambda>r. (health r, steward r)) (select_rows nyctrees borough species))"
  shows "\<exists>fig. stewardship nyctrees borough species = Inr fig
           \<and> map (\<lambda>b. (sb_name b, sb_y b)) (sf_data fig)
               = [(''Good'', map (cell_value (select_rows nyctrees borough species) ''Good'') categories),
                  (''Fair'', map (cell_value (select_rows nyctrees borough species) ''Fair'') categories),
                  (''Poor'', map (cell_value (select_rows nyctrees borough species) ''Poor'') categories)]"
    and "0 < total_count (filter (\<lambda>r. steward r = c) (select_rows nyctrees borough species)) \<Longrightarrow>
         sums_to_one (fsum [cell_value (select_rows nyctrees borough species) ''Good'' c,
                            cell_value (select_rows nyctrees borough species) ''Fair'' c,
                            cell_value (select_rows nyctrees borough species) ''Poor'' c])"
    and "filter (\<lambda>r. steward r = c) (select_rows nyctrees borough species) = [] \<Longrightarrow>
         cell_value (select_rows nyctrees borough species) h c = Num 0"
proof -
  let ?df = "select_rows nyctrees borough species"
  note sh = steward_health_cells [OF health cells]
  obtain f' g' p' where hv: "hover_of (merged_p ?df)
      = Inr [(0, ''Fair'', f'), (1, ''Good'', g'), (2, ''Poor'', p')]"
    using wide_frames_FGP(2) [OF health cells] by blast
  show "\<exists>fig. stewardship nyctrees borough species = Inr fig
           \<and> map (\<lambda>b. (sb_name b, sb_y b)) (sf_data fig)
               = [(''Good'', map (cell_value ?df ''Good'') categories),
                  (''Fair'', map (cell_value ?df ''Fair'') categories),
                  (''Poor'', map (cell_value ?df ''Poor'') categories)]"
    by (simp add: stewardship_def sh hv steward_figure_of_def trace_def loc_def)
next
  let ?df = "select_rows nyctrees borough species"
  let ?rows = "filter (\<lambda>r. steward r = c) ?df"
  assume total: "0 < total_count ?rows"
  have "set (map health ?rows) \<subseteq> {''Fair'', ''Good'', ''Poor''}"
    using health by auto
  then have "sums_to_one (fsum [share ''Good'' ?rows, share ''Fair'' ?rows, share ''Poor'' ?rows])"
    using total by (rule shares_sum_to_one)
  then show "sums_to_one (fsum [cell_value ?df ''Good'' c, cell_value ?df ''Fair'' c,
      cell_value ?df ''Poor'' c])"
    by (simp only: cell_value_share [OF cells total])
next
  assume "filter (\<lambda>r. steward r = c) (select_rows nyctrees borough species) = []"
  then show "cell_value (select_rows nyctrees borough species) h c = Num 0"
    by (rule cell_value_no_rows)
qed

subsection \<open>Claims about the second view\<close>


lemmas steward_defs = stewardship_def merged_p_def merge_totals_def groupby_sum_def with_steward_p_def
  hover_of_def steward_health_of_def pivot_def shape_def reindex_columns_def reset_index_def
  categories_def steward_figure_of_def trace_def loc_def fdiv_def round_half_even_def


text \<open>
  C2 at a selection without Poor rows. The red maples of the Bronx are Good in buckets
  \<open>0\<close> and \<open>1-2\<close> and Fair in bucket \<open>0\<close>, so bucket \<open>0\<close> has the nonzero total 30. The
  pivoted frame has the two rows Fair and Good only, \<open>.loc[2]\<close> finds no row, and
  \<open>stewardship\<close> raises KeyError instead of returning per-bucket proportions.
\<close>

theorem stewardship_missing_state_raises:
  "''Bronx'' \<in> set (map boroname sample_table) \<and> ''Red Maple'' \<in> set (map spc_common sample_table)
   \<and> total_count (filter (\<lambda>r. steward r = ''0'') (select_rows sample_table ''Bronx'' ''Red Maple'')) = 30
   \<and> stewardship sample_table ''Bronx'' ''Red Maple'' = Inl KeyError"
  by (simp add: sample_defs total_count_def steward_defs)

text \<open>
  C3 at a selection with no matching rows. Bronx and Ginkgo both occur in the sample table,
  but no row has both. \<open>health_prop\<close> returns a degenerate chart, the single bar Poor = 0;
  \<open>stewardship\<close> raises KeyError at its first lookup \<open>.loc[1]\<close>.
\<close>

theorem empty_selection_results:
  "''Bronx'' \<in> set (map boroname sample_table) \<and> ''Ginkgo'' \<in> set (map spc_common sample_table)
   \<and> select_rows sample_table ''Bronx'' ''Ginkgo'' = []
   \<and> health_x (health_prop sample_table ''Bronx'' ''Ginkgo'') = [Some ''Poor'']
   \<and> health_y (health_prop sample_table ''Bronx'' ''Ginkgo'') = [Num 0]
   \<and> stewardship sample_table ''Bronx'' ''Ginkgo'' = Inl KeyError"
  by (simp add: sample_defs steward_defs health_x_def health_y_def health_prop_def health_figure_of_def
      health_table_def health_shares_def fill_missing_def fill_step_def loc_set_def
      to_categorical_def categorical_def sort_values_def cat_code_def health_order_def)

section \<open>The callbacks and the loaded table\<close>

lemma length_modify_obj [simp]: "length (modify_obj k f st) = length st"
  by (simp add: modify_obj_def)



lemma length_foldl_modify [simp]:
  "length (foldl (\<lambda>st i. modify_obj k (g i) st) st xs) = length st"
  by (induction xs arbitrary: st) simp_all










end
